theory Spec2Isabelle
  imports Complex_Main
begin

section \<open>Game-state machine\<close>

text \<open>
  \<^verbatim>\<open>export type GameState =
    "active" | "userWinning" | "aiWinning" | "tied" | "endOfDay" | "victory" | "defeat";\<close>
\<close>

datatype GameState = Active | UserWinning | AiWinning | Tied | EndOfDay | Victory | Defeat

text \<open>
  \<^verbatim>\<open>DefaultGameStrategy.getGameState(userPoints, aiPoints, isEndOfDay)\<close>: the point totals are
  integer-valued numbers, compared exactly.
\<close>

definition getGameState :: "int \<Rightarrow> int \<Rightarrow> bool \<Rightarrow> GameState" where
  "getGameState userPoints aiPoints isEndOfDay =
     (if isEndOfDay then
        (if userPoints > aiPoints then Victory
         else if aiPoints > userPoints then Defeat
         else EndOfDay)
      else if userPoints > aiPoints then UserWinning
      else if aiPoints > userPoints then AiWinning
      else Tied)"

section \<open>Numbers\<close>

text \<open>
  A JavaScript number is modelled as \<open>NaN\<close> or a finite value, kept exact: an integer for
  time values (milliseconds), a rational where the code divides or multiplies by a decimal
  constant; the rounding of doubles is not modelled. Comparisons with \<open>NaN\<close> are false,
  and arithmetic, \<^verbatim>\<open>Math.max\<close> and \<^verbatim>\<open>Math.min\<close> give \<open>NaN\<close> as soon as an argument is
  \<open>NaN\<close>.
\<close>

datatype 'a jsnum = NaN | Fin 'a

definition js_lt :: "'a::linorder jsnum \<Rightarrow> 'a jsnum \<Rightarrow> bool" where
  "js_lt x y = (case x of NaN \<Rightarrow> False | Fin a \<Rightarrow> (case y of NaN \<Rightarrow> False | Fin b \<Rightarrow> a < b))"

definition js_le :: "'a::linorder jsnum \<Rightarrow> 'a jsnum \<Rightarrow> bool" where
  "js_le x y = (case x of NaN \<Rightarrow> False | Fin a \<Rightarrow> (case y of NaN \<Rightarrow> False | Fin b \<Rightarrow> a \<le> b))"

definition js_gt :: "'a::linorder jsnum \<Rightarrow> 'a jsnum \<Rightarrow> bool" where
  "js_gt x y = js_lt y x"

definition js_sub :: "int jsnum \<Rightarrow> int jsnum \<Rightarrow> int jsnum" where
  "js_sub x y = (case x of NaN \<Rightarrow> NaN | Fin a \<Rightarrow> (case y of NaN \<Rightarrow> NaN | Fin b \<Rightarrow> Fin (a - b)))"

definition js_div :: "int jsnum \<Rightarrow> int \<Rightarrow> rat jsnum" where
  "js_div x d = (case x of NaN \<Rightarrow> NaN | Fin a \<Rightarrow> Fin (of_int a / of_int d))"

definition Math_max :: "'a::linorder jsnum \<Rightarrow> 'a jsnum \<Rightarrow> 'a jsnum" where
  "Math_max x y = (case x of NaN \<Rightarrow> NaN | Fin a \<Rightarrow> (case y of NaN \<Rightarrow> NaN | Fin b \<Rightarrow> Fin (max a b)))"

definition Math_min :: "'a::linorder jsnum \<Rightarrow> 'a jsnum \<Rightarrow> 'a jsnum" where
  "Math_min x y = (case x of NaN \<Rightarrow> NaN | Fin a \<Rightarrow> (case y of NaN \<Rightarrow> NaN | Fin b \<Rightarrow> Fin (min a b)))"

section \<open>Intensity and threat level\<close>

datatype IntensityLevel = Low | Medium | High | Critical

text \<open>
  \<^verbatim>\<open>calculateIntensity(timeToEOD, userPoints, aiPoints)\<close> returns \<^verbatim>\<open>{ level, value }\<close>, here
  the pair \<open>(level, value)\<close>. Its local variables \<^verbatim>\<open>timeIntensity\<close> and \<^verbatim>\<open>scoreIntensity\<close> are
  functions of their own here; both are decimal constants and never \<open>NaN\<close>.
\<close>

definition timeIntensity :: "int jsnum \<Rightarrow> rat" where
  "timeIntensity timeToEOD =
     (let hoursLeft = js_div timeToEOD (1000 * 60 * 60) in
      if js_lt hoursLeft (Fin 0.25) then 1
      else if js_lt hoursLeft (Fin 0.5) then 0.8
      else if js_lt hoursLeft (Fin 1) then 0.6
      else if js_lt hoursLeft (Fin 2) then 0.4
      else 0.2)"

definition scoreIntensity :: "int \<Rightarrow> rat" where
  "scoreIntensity scoreDiff =
     (if scoreDiff < -20 then 0.8
      else if scoreDiff < -10 then 0.5
      else if scoreDiff < 0 then 0.3
      else 0.1)"

definition calculateIntensity :: "int jsnum \<Rightarrow> int \<Rightarrow> int \<Rightarrow> IntensityLevel \<times> rat" where
  "calculateIntensity timeToEOD userPoints aiPoints =
     (let scoreDiff = userPoints - aiPoints;
          val = min 1 (timeIntensity timeToEOD * 0.6 + scoreIntensity scoreDiff * 0.4);
          level =
            (if val \<ge> 0.8 then Critical
             else if val \<ge> 0.5 then High
             else if val \<ge> 0.3 then Medium
             else Low)
      in (level, val))"

text \<open>
  The threat level of \<^verbatim>\<open>useGameLoop\<close>:
  \<^verbatim>\<open>timeTheat = 1 - (timeToEOD / (24 * 60 * 60 * 1000))\<close>,
  \<^verbatim>\<open>scoreTheat = scoreDiff < 0 ? Math.min(1, Math.abs(scoreDiff) / 50) : 0\<close>,
  \<^verbatim>\<open>threatLevel = Math.min(1, timeTheat * 0.5 + scoreTheat * 0.5)\<close>.
\<close>

definition scoreTheat :: "int \<Rightarrow> rat" where
  "scoreTheat scoreDiff = (if scoreDiff < 0 then min 1 (of_int \<bar>scoreDiff\<bar> / 50) else 0)"

definition threatLevel :: "int jsnum \<Rightarrow> int \<Rightarrow> int \<Rightarrow> rat jsnum" where
  "threatLevel timeToEOD userPoints aiPoints =
     (let scoreDiff = userPoints - aiPoints in
      case js_div timeToEOD (24 * 60 * 60 * 1000) of
        NaN \<Rightarrow> NaN
      | Fin dayFraction \<Rightarrow>
          (let timeTheat = 1 - dayFraction
           in Math_min (Fin 1) (Fin (timeTheat * 0.5 + scoreTheat scoreDiff * 0.5))))"

text \<open>
  The reference definition of the intensity, in the words of the specification: the
  sub-score of the hours remaining, the sub-score of the user's margin, and the tier of the
  combined value.
\<close>

definition timeSubScore :: "rat \<Rightarrow> rat" where
  "timeSubScore hours =
     (if hours < 1/4 then 1 else if hours < 1/2 then 8/10 else if hours < 1 then 6/10
      else if hours < 2 then 4/10 else 2/10)"

definition scoreSubScore :: "int \<Rightarrow> rat" where
  "scoreSubScore margin =
     (if margin < -20 then 8/10 else if margin < -10 then 5/10 else if margin < 0 then 3/10
      else 1/10)"

definition tier :: "rat \<Rightarrow> IntensityLevel" where
  "tier v = (if 8/10 \<le> v then Critical else if 5/10 \<le> v then High
             else if 3/10 \<le> v then Medium else Low)"

definition computeIntensity_spec :: "int \<Rightarrow> int \<Rightarrow> int \<Rightarrow> IntensityLevel \<times> rat" where
  "computeIntensity_spec ms userPoints aiPoints =
     (let v = min 1 (6/10 * timeSubScore (of_int ms / 3600000)
                     + 4/10 * scoreSubScore (userPoints - aiPoints))
      in (tier v, v))"

section \<open>Dates\<close>

text \<open>
  A \<^verbatim>\<open>Date\<close> holds a time value: the milliseconds since the epoch in UTC, or \<open>NaN\<close> for
  an invalid date. For the scoring rules the local time zone is a fixed offset \<open>tz\<close> in
  milliseconds, so that the local time of \<open>t\<close> is \<open>t + tz\<close>; the countdown to the end of the
  day is modelled in a zone whose offset may change. A calendar date is the number of its
  day since the epoch: the day \<open>d\<close> starts at \<open>d * msPerDay\<close> in UTC. The abstract operations
  follow ECMA-262.
\<close>

definition msPerDay :: int where "msPerDay = 86400000"
definition msPerHour :: int where "msPerHour = 3600000"
definition msPerMinute :: int where "msPerMinute = 60000"
definition msPerSecond :: int where "msPerSecond = 1000"

definition TimeClip :: "int \<Rightarrow> int jsnum" where
  "TimeClip t = (if \<bar>t\<bar> > 8640000000000000 then NaN else Fin t)"

definition MakeTime :: "int jsnum \<Rightarrow> int jsnum \<Rightarrow> int jsnum \<Rightarrow> int jsnum \<Rightarrow> int jsnum" where
  "MakeTime hour mins sec ms =
     (case hour of NaN \<Rightarrow> NaN | Fin h \<Rightarrow>
      (case mins of NaN \<Rightarrow> NaN | Fin m \<Rightarrow>
       (case sec of NaN \<Rightarrow> NaN | Fin s \<Rightarrow>
        (case ms of NaN \<Rightarrow> NaN | Fin milli \<Rightarrow>
           Fin (h * msPerHour + m * msPerMinute + s * msPerSecond + milli)))))"

definition MakeDate :: "int \<Rightarrow> int jsnum \<Rightarrow> int jsnum" where
  "MakeDate day time = (case time of NaN \<Rightarrow> NaN | Fin t \<Rightarrow> Fin (day * msPerDay + t))"

text \<open>
  \<^verbatim>\<open>d.setHours(hour, min, sec, ms)\<close>: the fields of the local time of \<open>d\<close> are replaced and
  the local day is kept; the result is the new time value of \<open>d\<close>.
\<close>

definition setHours :: "int \<Rightarrow> int jsnum \<Rightarrow> int jsnum \<Rightarrow> int jsnum \<Rightarrow> int jsnum \<Rightarrow> int jsnum \<Rightarrow> int jsnum" where
  "setHours tz d hour mins sec ms =
     (case d of NaN \<Rightarrow> NaN | Fin t0 \<Rightarrow>
        (let t = t0 + tz in
         case MakeDate (t div msPerDay) (MakeTime hour mins sec ms) of
           NaN \<Rightarrow> NaN
         | Fin date \<Rightarrow> TimeClip (date - tz)))"

text \<open>\<^verbatim>\<open>d.setHours(hour, min, sec)\<close>: the milliseconds of the local time are kept.\<close>

definition setHours3 :: "int \<Rightarrow> int jsnum \<Rightarrow> int jsnum \<Rightarrow> int jsnum \<Rightarrow> int jsnum \<Rightarrow> int jsnum" where
  "setHours3 tz d hour mins sec =
     (case d of NaN \<Rightarrow> NaN | Fin t0 \<Rightarrow> setHours tz d hour mins sec (Fin ((t0 + tz) mod msPerSecond)))"

text \<open>
  A time zone whose offset changes (daylight saving): \<open>utc_off z t\<close> is the offset in force
  at the instant \<open>t\<close>, so that the local time of \<open>t\<close> is \<open>t + utc_off z t\<close>, and
  \<open>loc_off z x\<close> is the offset with which the local time \<open>x\<close> is read back, so that its
  instant is \<open>x - loc_off z x\<close> (\<^verbatim>\<open>LocalTime\<close> and \<^verbatim>\<open>UTC\<close> of ECMA-262). A zone of fixed
  offset has both constant.
\<close>

record zone =
  utc_off :: "int \<Rightarrow> int"
  loc_off :: "int \<Rightarrow> int"

definition fixed_zone :: "int \<Rightarrow> zone" where
  "fixed_zone tz = \<lparr>utc_off = (\<lambda>t. tz), loc_off = (\<lambda>x. tz)\<rparr>"

definition LocalTime :: "zone \<Rightarrow> int \<Rightarrow> int" where
  "LocalTime z t = t + utc_off z t"

definition UTC_of :: "zone \<Rightarrow> int \<Rightarrow> int" where
  "UTC_of z x = x - loc_off z x"

text \<open>
  \<^verbatim>\<open>d.setHours(hour, min, sec, ms)\<close> in such a zone; in a zone of fixed offset it is
  \<open>setHours\<close>.
\<close>

definition setHours_in :: "zone \<Rightarrow> int jsnum \<Rightarrow> int jsnum \<Rightarrow> int jsnum \<Rightarrow> int jsnum \<Rightarrow> int jsnum \<Rightarrow> int jsnum" where
  "setHours_in z d hour mins sec ms =
     (case d of NaN \<Rightarrow> NaN | Fin t0 \<Rightarrow>
        (let t = LocalTime z t0 in
         case MakeDate (t div msPerDay) (MakeTime hour mins sec ms) of
           NaN \<Rightarrow> NaN
         | Fin date \<Rightarrow> TimeClip (UTC_of z date)))"

text \<open>
  \<^verbatim>\<open>d.setDate(d.getDate() + 1)\<close>: the local date moves one day on and the local time of
  day is kept, so that the new local time is one day after the local time of \<open>d\<close>; the
  instant is 24 hours later only when the offset is the same at both.
\<close>

definition setDate_next :: "zone \<Rightarrow> int jsnum \<Rightarrow> int jsnum" where
  "setDate_next z d =
     (case d of NaN \<Rightarrow> NaN | Fin t0 \<Rightarrow> TimeClip (UTC_of z (LocalTime z t0 + msPerDay)))"

text \<open>
  A time of day, as the text \<^verbatim>\<open>HH:MM:SS\<close> of a \<^verbatim>\<open>TIME\<close> column shows it (fractions of a
  second are not modelled). The valid times run from 00:00:00 to 24:00:00.
\<close>

record tod =
  hour :: int
  minute :: int
  second :: int

definition valid_tod :: "tod \<Rightarrow> bool" where
  "valid_tod t =
     ((0 \<le> hour t \<and> hour t < 24 \<and> 0 \<le> minute t \<and> minute t < 60 \<and>
       0 \<le> second t \<and> second t < 60) \<or>
      (hour t = 24 \<and> minute t = 0 \<and> second t = 0))"

definition tod_ms :: "tod \<Rightarrow> int" where
  "tod_ms t = hour t * msPerHour + minute t * msPerMinute + second t * msPerSecond"

text \<open>
  \<^verbatim>\<open>new Date(`${date}T${time}`)\<close>: a date-time text without offset is read as local time.
  \<^verbatim>\<open>new Date(date)\<close>: a date-only text \<^verbatim>\<open>YYYY-MM-DD\<close> is read as midnight UTC.
\<close>

definition new_Date_local :: "int \<Rightarrow> int \<Rightarrow> tod \<Rightarrow> int jsnum" where
  "new_Date_local tz day t =
     (if valid_tod t then TimeClip (day * msPerDay + tod_ms t - tz) else NaN)"

definition new_Date_utc :: "int \<Rightarrow> int jsnum" where
  "new_Date_utc day = TimeClip (day * msPerDay)"

section \<open>The day-boundary setting\<close>

text \<open>\<^verbatim>\<open>s.split(":")\<close>: the fields between the separators; never the empty list.\<close>

fun split_on :: "char \<Rightarrow> string \<Rightarrow> string list" where
  "split_on sep [] = [[]]"
| "split_on sep (c # cs) =
     (if c = sep then [] # split_on sep cs
      else (case split_on sep cs of [] \<Rightarrow> [[c]] | w # ws \<Rightarrow> (c # w) # ws))"

definition is_digit :: "char \<Rightarrow> bool" where
  "is_digit c = (48 \<le> (of_char c :: nat) \<and> (of_char c :: nat) \<le> 57)"

definition digits_val :: "string \<Rightarrow> nat" where
  "digits_val s = foldl (\<lambda>n c. 10 * n + (of_char c - 48)) 0 s"

text \<open>
  Letters that occur in no numeric literal: the literals are made of digits, signs, the
  point, the exponent mark, the radix prefixes with the hexadecimal digits, white space and
  \<^verbatim>\<open>Infinity\<close>.
\<close>

definition non_numeric_letter :: "char \<Rightarrow> bool" where
  "non_numeric_letter c = (c \<in> set ''ghjklmpqrsuvwzGHJKLMNPQRSTUVWYZ'')"

text \<open>
  \<^verbatim>\<open>Number(s)\<close> on a string, on the part of its domain that the day-boundary setting needs:
  the empty string is 0, a string of at most 15 decimal digits is its value (exact as a
  double), and a string with a letter of no numeric literal is \<open>NaN\<close>. Every other string
  (signs, fractions, exponents, radix prefixes, white space, longer digit strings) is outside
  the model: the result \<open>None\<close> says so, it is not a failure of the code.
\<close>

definition js_Number :: "string \<Rightarrow> int jsnum option" where
  "js_Number s =
     (if s = [] then Some (Fin 0)
      else if list_all is_digit s \<and> length s \<le> 15 then Some (Fin (int (digits_val s)))
      else if list_ex non_numeric_letter s then Some NaN
      else None)"

text \<open>
  \<^verbatim>\<open>const [hours, minutes] = dayEndTime.split(":").map(Number)\<close>, followed by the
  conversion that \<^verbatim>\<open>setHours\<close> applies to its arguments: a missing second field leaves
  \<^verbatim>\<open>minutes\<close> undefined, which \<^verbatim>\<open>setHours\<close> reads as \<open>NaN\<close>. Fields after the second are not
  used.
\<close>

definition split_map_Number :: "string \<Rightarrow> (int jsnum \<times> int jsnum) option" where
  "split_map_Number dayEndTime =
     (case split_on CHR '':'' dayEndTime of
        [] \<Rightarrow> None
      | [h] \<Rightarrow> (case js_Number h of None \<Rightarrow> None | Some hours \<Rightarrow> Some (hours, NaN))
      | h # m # rest \<Rightarrow>
          (case js_Number h of None \<Rightarrow> None | Some hours \<Rightarrow>
           (case js_Number m of None \<Rightarrow> None | Some minutes \<Rightarrow> Some (hours, minutes))))"

text \<open>
  \<^verbatim>\<open>calculateTimeToEOD(dayEndTime, timezone)\<close>; the parameter \<^verbatim>\<open>timezone\<close> is not used by
  the code, which works in the zone \<open>z\<close> of the browser. Both \<^verbatim>\<open>new Date()\<close> of the body are
  the one instant \<open>now\<close>. \<open>calculateTimeToEOD_fields\<close> is the body after the first
  statement, given the numbers \<^verbatim>\<open>hours\<close> and \<^verbatim>\<open>minutes\<close>. The result of
  \<open>calculateTimeToEOD\<close> is \<open>None\<close> only where \<open>js_Number\<close> is outside its model.
\<close>

definition calculateTimeToEOD_fields :: "zone \<Rightarrow> int \<Rightarrow> int jsnum \<Rightarrow> int jsnum \<Rightarrow> int jsnum" where
  "calculateTimeToEOD_fields z now hours minutes =
     (let eod = setHours_in z (Fin now) hours minutes (Fin 0) (Fin 0);
          eod' = (if js_le eod (Fin now) then setDate_next z eod else eod)
      in Math_max (Fin 0) (js_sub eod' (Fin now)))"

definition calculateTimeToEOD :: "zone \<Rightarrow> int \<Rightarrow> string \<Rightarrow> int jsnum option" where
  "calculateTimeToEOD z now dayEndTime =
     (case split_map_Number dayEndTime of
        None \<Rightarrow> None
      | Some (hours, minutes) \<Rightarrow> Some (calculateTimeToEOD_fields z now hours minutes))"

section \<open>Goals and profiles\<close>

datatype GoalType = Daily | LongTerm

text \<open>
  A row of \<^verbatim>\<open>public.goals\<close>, which is also the \<^verbatim>\<open>Goal\<close> of the dashboard. \<^verbatim>\<open>due_date\<close> is a
  day number, \<^verbatim>\<open>due_time\<close> a time of day, and the timestamps are time values in
  milliseconds. \<^verbatim>\<open>completed\<close> has the default \<^verbatim>\<open>false\<close> and is never written as NULL.
\<close>

record Goal =
  goal_type :: GoalType
  due_date :: "int option"
  due_time :: "tod option"
  completed :: bool
  completed_at :: "int option"
  points_earned :: int
  ai_points_earned :: int
  created_at :: int

text \<open>
  A row of \<^verbatim>\<open>public.profiles\<close>. The point and streak columns are nullable integers,
  \<^verbatim>\<open>last_goal_date\<close> is a day number. An \<^verbatim>\<open>INTEGER\<close> column holds a value from
  -2147483648 to 2147483647; the sum in the streak trigger is checked against this range,
  the sums of points are not.
\<close>

record profiles_row =
  total_points :: "int option"
  ai_points :: "int option"
  day_end_time :: "tod option"
  current_streak :: "int option"
  longest_streak :: "int option"
  last_goal_date :: "int option"

section \<open>Completing a goal\<close>

text \<open>
  The point split of \<^verbatim>\<open>handleCompleteGoal\<close>: \<^verbatim>\<open>userPoints\<close>, \<^verbatim>\<open>aiPoints\<close> and \<^verbatim>\<open>message\<close> as
  they stand before the goal and the profile are updated. \<^verbatim>\<open>new Date().toISOString()\<close> gives
  the date of \<open>now\<close> in UTC.
\<close>

definition handleCompleteGoal :: "int \<Rightarrow> int \<Rightarrow> Goal \<Rightarrow> int \<times> int \<times> string" where
  "handleCompleteGoal tz now goal =
     (if goal_type goal = Daily then
        (case due_time goal of
           Some t \<Rightarrow>
             (let today = now div msPerDay;
                  dueDateTime = new_Date_local tz today t
              in if js_lt (Fin now) dueDateTime
                 then (20, -5, ''Early completion! +20 points (AI loses 5)'')
                 else (5, 5, ''Task completed! +5 points (AI also gets +5)''))
         | None \<Rightarrow> (5, 5, ''Task completed! +5 points (AI also gets +5)''))
      else
        (case due_date goal of
           Some d \<Rightarrow>
             (case due_time goal of
                Some t \<Rightarrow>
                  (let dueDateTime = new_Date_local tz d t
                   in if js_lt (Fin now) dueDateTime
                      then (20, -5, ''Early completion! +20 points (AI loses 5)'')
                      else (10, 0, ''On-time completion! +10 points''))
              | None \<Rightarrow>
                  (let dueDate = setHours3 tz (new_Date_utc d) (Fin 23) (Fin 59) (Fin 59)
                   in if js_le (Fin now) dueDate
                      then (10, 0, ''Goal achieved! +10 points'')
                      else (5, 5, ''Late completion! +5 points (AI gets +5)'')))
         | None \<Rightarrow> (10, 0, ''Goal completed! +10 points'')))"

section \<open>Missed goals\<close>

text \<open>
  The callback of \<^verbatim>\<open>goals.filter\<close> in \<^verbatim>\<open>handleMissedGoals\<close>. \<^verbatim>\<open>parseInt\<close> of the first two
  fields of \<^verbatim>\<open>due_time\<close> gives its hour and minute.
\<close>

definition missed_filter :: "int \<Rightarrow> int \<Rightarrow> int jsnum \<Rightarrow> int jsnum \<Rightarrow> Goal \<Rightarrow> bool" where
  "missed_filter tz now eodHours eodMinutes goal =
     (if completed goal then False
      else
        (let createdDate = TimeClip (created_at goal) in
         if goal_type goal = Daily then
           (let deadline = setHours tz createdDate eodHours eodMinutes (Fin 0) (Fin 0)
            in js_gt (Fin now) deadline)
         else
           (case due_date goal of
              Some d \<Rightarrow>
                (let dueDate = new_Date_utc d;
                     dueDate' =
                       (case due_time goal of
                          Some t \<Rightarrow> setHours tz dueDate (Fin (hour t)) (Fin (minute t)) (Fin 0) (Fin 0)
                        | None \<Rightarrow> setHours tz dueDate eodHours eodMinutes (Fin 0) (Fin 0))
                 in js_gt (Fin now) dueDate')
            | None \<Rightarrow> False)))"

text \<open>
  \<^verbatim>\<open>handleMissedGoals\<close> of the dashboard, given the \<^verbatim>\<open>day_end_time\<close> of the profile as the
  text the client receives (\<^verbatim>\<open>string | null\<close>): the list \<^verbatim>\<open>missedGoals\<close>, each goal of which
  is then sent an update of its \<^verbatim>\<open>updated_at\<close>. \<^verbatim>\<open>profile.day_end_time || "23:59"\<close> replaces
  \<^verbatim>\<open>null\<close> and the empty string.
\<close>

definition handleMissedGoals :: "int \<Rightarrow> int \<Rightarrow> string option \<Rightarrow> Goal list \<Rightarrow> Goal list option" where
  "handleMissedGoals tz now profile_day_end_time goals =
     (let dayEndTime =
            (case profile_day_end_time of
               None \<Rightarrow> ''23:59''
             | Some s \<Rightarrow> if s = [] then ''23:59'' else s)
      in case split_map_Number dayEndTime of
           None \<Rightarrow> None
         | Some (eodHours, eodMinutes) \<Rightarrow>
             Some (filter (missed_filter tz now eodHours eodMinutes) goals))"

text \<open>
  The trigger function \<^verbatim>\<open>process_missed_goal\<close>, run \<^verbatim>\<open>BEFORE UPDATE ON public.goals FOR EACH
  ROW\<close>. Timestamps are kept at millisecond resolution. \<open>stz\<close> is the offset of the session
  time zone, in which \<^verbatim>\<open>(date + time)::TIMESTAMP WITH TIME ZONE\<close> reads its argument. A NULL
  is \<open>None\<close>: the \<^verbatim>\<open>SELECT ... INTO\<close> leaves \<^verbatim>\<open>user_day_end_time\<close> NULL when the user has no
  profile row, a sum with NULL is NULL, and a comparison with NULL is not true.
  \<open>check_deadline\<close> is the block that follows the computation of \<^verbatim>\<open>goal_deadline\<close>. The
  function gives the row \<^verbatim>\<open>NEW\<close> it returns and the profile row afterwards.
\<close>

definition sql_timestamptz :: "int \<Rightarrow> int \<Rightarrow> tod \<Rightarrow> int" where
  "sql_timestamptz stz day t = day * msPerDay + tod_ms t - stz"

definition COALESCE0 :: "int option \<Rightarrow> int" where
  "COALESCE0 x = (case x of None \<Rightarrow> 0 | Some v \<Rightarrow> v)"

definition process_missed_goal ::
    "int \<Rightarrow> int \<Rightarrow> profiles_row option \<Rightarrow> Goal \<Rightarrow> Goal \<times> profiles_row option" where
  "process_missed_goal stz NOW profile NEW =
     (if completed NEW then (NEW, profile)
      else
        (let user_day_end_time =
               (case profile of
                  None \<Rightarrow> None
                | Some p \<Rightarrow>
                    (case day_end_time p of
                       None \<Rightarrow> Some \<lparr>hour = 23, minute = 59, second = 0\<rparr>
                     | Some t \<Rightarrow> Some t));
             check_deadline = (\<lambda>goal_deadline.
               (case goal_deadline of
                  None \<Rightarrow> (NEW, profile)
                | Some deadline \<Rightarrow>
                    if NOW > deadline \<and> completed NEW = False then
                      (NEW\<lparr>completed := True, completed_at := Some NOW,
                           ai_points_earned := 15, points_earned := 0\<rparr>,
                       map_option (\<lambda>p. p\<lparr>ai_points := Some (COALESCE0 (ai_points p) + 15)\<rparr>) profile)
                    else (NEW, profile)))
         in
         if goal_type NEW = Daily then
           check_deadline
             (map_option (sql_timestamptz stz (created_at NEW div msPerDay)) user_day_end_time)
         else
           (case due_date NEW of
              Some d \<Rightarrow>
                (case due_time NEW of
                   Some t \<Rightarrow> check_deadline (Some (sql_timestamptz stz d t))
                 | None \<Rightarrow> check_deadline (map_option (sql_timestamptz stz d) user_day_end_time))
            | None \<Rightarrow> (NEW, profile))))"

section \<open>Streaks\<close>

text \<open>
  \<^verbatim>\<open>GREATEST(a, b)\<close> on non-null arguments; \<open>COALESCE0 x\<close> is \<^verbatim>\<open>COALESCE(x, 0)\<close>. The sum of two
  \<^verbatim>\<open>INTEGER\<close> values raises the error \<^verbatim>\<open>integer out of range\<close> when it does not fit the
  type; the error ends the trigger and rolls the statement back.
\<close>

datatype sql_error = integer_out_of_range

definition int4 :: "int \<Rightarrow> bool" where
  "int4 x = (- 2147483648 \<le> x \<and> x \<le> 2147483647)"

definition int4_add :: "int \<Rightarrow> int \<Rightarrow> sql_error + int" where
  "int4_add a b = (if int4 (a + b) then Inr (a + b) else Inl integer_out_of_range)"

definition GREATEST_sql :: "int \<Rightarrow> int \<Rightarrow> int" where
  "GREATEST_sql a b = max a b"

text \<open>
  The body of \<^verbatim>\<open>IF FOUND THEN ... END IF\<close> in \<^verbatim>\<open>update_streak_on_goal_complete\<close>. A comparison
  with a NULL \<^verbatim>\<open>last_goal_date\<close> is NULL, so neither \<^verbatim>\<open>IF\<close> nor \<^verbatim>\<open>ELSIF\<close> is taken and the
  \<^verbatim>\<open>ELSE\<close> branch runs. The right-hand sides of an \<^verbatim>\<open>UPDATE ... SET\<close> read the old row; both
  occurrences of \<^verbatim>\<open>COALESCE(current_streak, 0) + 1\<close> are the same sum.
\<close>

definition streak_logic :: "int \<Rightarrow> profiles_row \<Rightarrow> sql_error + profiles_row" where
  "streak_logic today_date p =
     (let yesterday_date = today_date - 1 in
      if last_goal_date p = Some yesterday_date then
        (case int4_add (COALESCE0 (current_streak p)) 1 of
           Inl e \<Rightarrow> Inl e
         | Inr incremented \<Rightarrow>
             Inr (p\<lparr>current_streak := Some incremented,
                    longest_streak :=
                      Some (GREATEST_sql (COALESCE0 (longest_streak p)) incremented),
                    last_goal_date := Some today_date\<rparr>))
      else if last_goal_date p = Some today_date then Inr p
      else
        Inr (p\<lparr>current_streak := Some 1,
               longest_streak := Some (GREATEST_sql (COALESCE0 (longest_streak p)) 1),
               last_goal_date := Some today_date\<rparr>))"

text \<open>
  The trigger function, run \<^verbatim>\<open>AFTER UPDATE ON public.goals FOR EACH ROW\<close>: it takes the
  \<^verbatim>\<open>completed\<close> flag of the new and of the old row, and the profile row of the goal's user
  (\<open>None\<close> when the \<^verbatim>\<open>SELECT ... INTO\<close> finds no row), and gives the profile row afterwards,
  or the error it raises.
\<close>

definition update_streak_on_goal_complete ::
    "int \<Rightarrow> bool \<Rightarrow> bool \<Rightarrow> profiles_row option \<Rightarrow> sql_error + profiles_row option" where
  "update_streak_on_goal_complete today_date new_completed old_completed profile_record =
     (if new_completed \<and> \<not> old_completed then
        (case profile_record of
           None \<Rightarrow> Inr None
         | Some p \<Rightarrow>
             (case streak_logic today_date p of
                Inl e \<Rightarrow> Inl e
              | Inr p' \<Rightarrow> Inr (Some p')))
      else Inr profile_record)"

section \<open>Reference definitions for the time to the boundary\<close>

text \<open>
  The local day of an instant in a zone of fixed offset.
\<close>

definition local_day :: "int \<Rightarrow> int \<Rightarrow> int" where
  "local_day tz t = (t + tz) div msPerDay"

text \<open>
  In a zone \<open>z\<close>: the instant at which the local clock reads \<open>h:m\<close> on a given day; an
  instant rolled to the next calendar day, which is the instant of the same reading of the
  local clock one calendar day later; and the boundary instant of the countdown, which is
  today's boundary when that is after \<open>now\<close>, and otherwise today's boundary rolled to the
  next calendar day.
\<close>

definition wall_instant :: "zone \<Rightarrow> int \<Rightarrow> int \<Rightarrow> int \<Rightarrow> int" where
  "wall_instant z day h m = UTC_of z (day * msPerDay + h * msPerHour + m * msPerMinute)"

definition next_calendar_day :: "zone \<Rightarrow> int \<Rightarrow> int" where
  "next_calendar_day z b = UTC_of z (LocalTime z b + msPerDay)"

definition boundaryInstant :: "zone \<Rightarrow> int \<Rightarrow> int \<Rightarrow> int \<Rightarrow> int" where
  "boundaryInstant z now h m =
     (let today = wall_instant z (LocalTime z now div msPerDay) h m
      in if today \<le> now then next_calendar_day z today else today)"

text \<open>
  What the countdown needs of a zone: its offsets are at most a day; reading a local time
  back never lands before it (it lands after it only for a time that the local clock
  skips); and every local time of a later calendar day than that of an instant lies after
  that instant.
\<close>

definition zone_bounded :: "zone \<Rightarrow> bool" where
  "zone_bounded z = (\<forall>t. \<bar>utc_off z t\<bar> \<le> msPerDay \<and> \<bar>loc_off z t\<bar> \<le> msPerDay)"

definition reads_forward :: "zone \<Rightarrow> bool" where
  "reads_forward z = (\<forall>x. x \<le> LocalTime z (UTC_of z x))"

definition days_in_order :: "zone \<Rightarrow> bool" where
  "days_in_order z =
     (\<forall>t x. (LocalTime z t div msPerDay + 1) * msPerDay \<le> x \<longrightarrow> t < UTC_of z x)"

text \<open>
  The zone of New York around the end of daylight saving time on 3 November 2024: four
  hours behind UTC before 06:00 UTC of that day and five hours behind from then on; a
  local time before 02:00 of that day is read with the earlier offset.
\<close>

definition new_york_2024 :: zone where
  "new_york_2024 =
     \<lparr>utc_off = (\<lambda>t. if t < 1730613600000 then - 14400000 else - 18000000),
      loc_off = (\<lambda>x. if x < 1730599200000 then - 14400000 else - 18000000)\<rparr>"

section \<open>Reference definitions for the scoring rules\<close>

text \<open>
  The outcome of a completion, and the outcome that each message of
  \<^verbatim>\<open>handleCompleteGoal\<close> announces.
\<close>

datatype outcome = early | onTime | late | noDeadline

definition outcome_of :: "string \<Rightarrow> outcome option" where
  "outcome_of message =
     (if message = ''Early completion! +20 points (AI loses 5)'' then Some early
      else if message = ''Task completed! +5 points (AI also gets +5)'' then Some onTime
      else if message = ''On-time completion! +10 points'' then Some onTime
      else if message = ''Goal achieved! +10 points'' then Some onTime
      else if message = ''Late completion! +5 points (AI gets +5)'' then Some late
      else if message = ''Goal completed! +10 points'' then Some noDeadline
      else None)"

definition completion_result :: "int \<times> int \<times> string \<Rightarrow> (int \<times> int \<times> outcome) option" where
  "completion_result r =
     (case r of (userPoints, aiPoints, message) \<Rightarrow>
        map_option (\<lambda>out. (userPoints, aiPoints, out)) (outcome_of message))"

text \<open>The instant at which the local clock reads the time of day \<open>t\<close> on a given day.\<close>

definition local_instant :: "int \<Rightarrow> int \<Rightarrow> tod \<Rightarrow> int" where
  "local_instant tz day t = day * msPerDay + tod_ms t - tz"

text \<open>
  The table of the specification for the completion of a goal at the instant \<open>now\<close>:
  today is the local day of \<open>now\<close>, and the end of a day is 23:59:59 on the local clock.
  The table has no row for a long-term goal with a due time and no due date.
\<close>

definition resolveCompletion_spec :: "int \<Rightarrow> int \<Rightarrow> Goal \<Rightarrow> (int \<times> int \<times> outcome) option" where
  "resolveCompletion_spec tz now goal =
     (case goal_type goal of
        Daily \<Rightarrow>
          (case due_time goal of
             Some t \<Rightarrow>
               if now < local_instant tz (local_day tz now) t then Some (20, -5, early)
               else Some (5, 5, onTime)
           | None \<Rightarrow> Some (5, 5, onTime))
      | LongTerm \<Rightarrow>
          (case due_date goal of
             Some d \<Rightarrow>
               (case due_time goal of
                  Some t \<Rightarrow>
                    if now < local_instant tz d t then Some (20, -5, early)
                    else Some (10, 0, onTime)
                | None \<Rightarrow>
                    if now \<le> local_instant tz d \<lparr>hour = 23, minute = 59, second = 59\<rparr>
                    then Some (10, 0, onTime)
                    else Some (5, 5, late))
           | None \<Rightarrow>
               (case due_time goal of
                  None \<Rightarrow> Some (10, 0, noDeadline)
                | Some t \<Rightarrow> None)))"

text \<open>
  The deadline of the specification for the sweep of missed goals, given the configured
  end of the day, in the zone of the user (the offset \<open>tz\<close>): for a daily goal the end of the
  day on the local date of its creation, for a long-term goal its due date at its due time,
  or at the end of the day when it has no due time, and none without a due date. The
  configured end of the day is the \<^verbatim>\<open>day_end_time\<close> of the profile, 23:59:00 when that is
  NULL. A goal is missed when it is not completed and \<open>now\<close> is strictly after its deadline.
\<close>

definition configured_day_end :: "profiles_row \<Rightarrow> tod" where
  "configured_day_end p =
     (case day_end_time p of None \<Rightarrow> \<lparr>hour = 23, minute = 59, second = 0\<rparr> | Some t \<Rightarrow> t)"

definition missed_deadline :: "int \<Rightarrow> tod \<Rightarrow> Goal \<Rightarrow> int option" where
  "missed_deadline tz dayEndTime g =
     (case goal_type g of
        Daily \<Rightarrow> Some (local_instant tz (local_day tz (created_at g)) dayEndTime)
      | LongTerm \<Rightarrow>
          (case due_date g of
             None \<Rightarrow> None
           | Some d \<Rightarrow>
               (case due_time g of
                  Some t \<Rightarrow> Some (local_instant tz d t)
                | None \<Rightarrow> Some (local_instant tz d dayEndTime))))"

definition is_missed :: "int \<Rightarrow> int \<Rightarrow> tod \<Rightarrow> Goal \<Rightarrow> bool" where
  "is_missed tz now dayEndTime g =
     (\<not> completed g \<and>
      (case missed_deadline tz dayEndTime g of
         None \<Rightarrow> False
       | Some deadline \<Rightarrow> deadline < now))"

section \<open>Properties of the game-state machine\<close>

text \<open>
  Claim C4. For all integer point totals and either value of the end-of-day flag,
  \<open>getGameState\<close> gives: at the end of the day victory when the user leads, defeat when the AI
  leads and endOfDay on equal points; otherwise userWinning, aiWinning and tied in the same
  three cases. In particular 40 against 70 at the end of the day is a defeat, and equal
  arguments give equal states.
\<close>

theorem getGameState_classify:
  "(isEndOfDay \<and> userPoints > aiPoints \<longrightarrow> getGameState userPoints aiPoints isEndOfDay = Victory) \<and>
   (isEndOfDay \<and> aiPoints > userPoints \<longrightarrow> getGameState userPoints aiPoints isEndOfDay = Defeat) \<and>
   (isEndOfDay \<and> userPoints = aiPoints \<longrightarrow> getGameState userPoints aiPoints isEndOfDay = EndOfDay) \<and>
   (\<not> isEndOfDay \<and> userPoints > aiPoints \<longrightarrow> getGameState userPoints aiPoints isEndOfDay = UserWinning) \<and>
   (\<not> isEndOfDay \<and> aiPoints > userPoints \<longrightarrow> getGameState userPoints aiPoints isEndOfDay = AiWinning) \<and>
   (\<not> isEndOfDay \<and> userPoints = aiPoints \<longrightarrow> getGameState userPoints aiPoints isEndOfDay = Tied) \<and>
   getGameState 40 70 True = Defeat \<and>
   (userPoints = userPoints' \<and> aiPoints = aiPoints' \<and> isEndOfDay = isEndOfDay' \<longrightarrow>
      getGameState userPoints aiPoints isEndOfDay = getGameState userPoints' aiPoints' isEndOfDay')"
  by (simp add: getGameState_def)

theorem getGameState_classify_witness:
  "getGameState 70 40 True = Victory \<and> getGameState 40 70 True = Defeat \<and>
   getGameState 30 30 True = EndOfDay \<and> getGameState 70 40 False = UserWinning \<and>
   getGameState 40 70 False = AiWinning \<and> getGameState 30 30 False = Tied"
  using getGameState_classify [of True 70 40 70 40 True]
        getGameState_classify [of True 40 70 40 70 True]
        getGameState_classify [of True 30 30 30 30 True]
        getGameState_classify [of False 70 40 70 40 False]
        getGameState_classify [of False 40 70 40 70 False]
        getGameState_classify [of False 30 30 30 30 False]
  by simp

section \<open>Properties of the streak trigger\<close>

text \<open>
  Claim C9, as amended. When a goal changes to completed and the user's profile row exists,
  the trigger leaves the streak columns as follows (a NULL streak column counts as 0):
  last completion yesterday and a current streak below 2147483647, the largest value of the
  column: the current streak grows by one and the longest streak becomes the maximum of
  itself and the new current streak; last completion yesterday and a current streak of
  2147483647: the statement fails with \<^verbatim>\<open>integer out of range\<close> and no column changes; last
  completion today: both streaks are unchanged; any other date, or none: the current streak
  is 1 and the longest streak is the maximum of itself and 1. A current streak of 4 with
  the last completion yesterday becomes 5, and the longest streak is then at least 5.
\<close>

theorem update_streak_on_goal_complete_cases:
  "(last_goal_date p = Some (today - 1) \<and> int4 (COALESCE0 (current_streak p)) \<and>
    COALESCE0 (current_streak p) < 2147483647 \<longrightarrow>
      update_streak_on_goal_complete today True False (Some p) =
        Inr (Some (p\<lparr>current_streak := Some (COALESCE0 (current_streak p) + 1),
                longest_streak :=
                  Some (max (COALESCE0 (longest_streak p)) (COALESCE0 (current_streak p) + 1)),
                last_goal_date := Some today\<rparr>))) \<and>
   (last_goal_date p = Some (today - 1) \<and> COALESCE0 (current_streak p) = 2147483647 \<longrightarrow>
      update_streak_on_goal_complete today True False (Some p) = Inl integer_out_of_range) \<and>
   (last_goal_date p = Some today \<longrightarrow>
      update_streak_on_goal_complete today True False (Some p) = Inr (Some p)) \<and>
   (last_goal_date p \<noteq> Some (today - 1) \<and> last_goal_date p \<noteq> Some today \<longrightarrow>
      update_streak_on_goal_complete today True False (Some p) =
        Inr (Some (p\<lparr>current_streak := Some 1,
                longest_streak := Some (max (COALESCE0 (longest_streak p)) 1),
                last_goal_date := Some today\<rparr>))) \<and>
   (last_goal_date p = Some (today - 1) \<and> current_streak p = Some 4 \<longrightarrow>
      (\<exists>p' l. update_streak_on_goal_complete today True False (Some p) = Inr (Some p') \<and>
            current_streak p' = Some 5 \<and> longest_streak p' = Some l \<and> 5 \<le> l))"
  by (simp add: update_streak_on_goal_complete_def streak_logic_def GREATEST_sql_def
      int4_add_def int4_def COALESCE0_def Let_def)

theorem update_streak_on_goal_complete_cases_witness:
  "update_streak_on_goal_complete 100 True False
       (Some \<lparr>total_points = Some 60, ai_points = Some 45, day_end_time = None,
              current_streak = Some 4, longest_streak = Some 4, last_goal_date = Some 99\<rparr>)
     = Inr (Some \<lparr>total_points = Some 60, ai_points = Some 45, day_end_time = None,
             current_streak = Some 5, longest_streak = Some 5, last_goal_date = Some 100\<rparr>) \<and>
   update_streak_on_goal_complete 100 True False
       (Some \<lparr>total_points = Some 60, ai_points = Some 45, day_end_time = None,
              current_streak = Some 4, longest_streak = Some 9, last_goal_date = Some 100\<rparr>)
     = Inr (Some \<lparr>total_points = Some 60, ai_points = Some 45, day_end_time = None,
             current_streak = Some 4, longest_streak = Some 9, last_goal_date = Some 100\<rparr>) \<and>
   update_streak_on_goal_complete 100 True False
       (Some \<lparr>total_points = Some 60, ai_points = Some 45, day_end_time = None,
              current_streak = Some 4, longest_streak = Some 9, last_goal_date = None\<rparr>)
     = Inr (Some \<lparr>total_points = Some 60, ai_points = Some 45, day_end_time = None,
             current_streak = Some 1, longest_streak = Some 9, last_goal_date = Some 100\<rparr>) \<and>
   update_streak_on_goal_complete 100 True False
       (Some \<lparr>total_points = Some 60, ai_points = Some 45, day_end_time = None,
              current_streak = Some 2147483647, longest_streak = Some 2147483647,
              last_goal_date = Some 99\<rparr>)
     = Inl integer_out_of_range"
  using update_streak_on_goal_complete_cases
          [of "\<lparr>total_points = Some 60, ai_points = Some 45, day_end_time = None,
                current_streak = Some 4, longest_streak = Some 4, last_goal_date = Some 99\<rparr>" 100]
        update_streak_on_goal_complete_cases
          [of "\<lparr>total_points = Some 60, ai_points = Some 45, day_end_time = None,
                current_streak = Some 4, longest_streak = Some 9, last_goal_date = Some 100\<rparr>" 100]
        update_streak_on_goal_complete_cases
          [of "\<lparr>total_points = Some 60, ai_points = Some 45, day_end_time = None,
                current_streak = Some 4, longest_streak = Some 9, last_goal_date = None\<rparr>" 100]
        update_streak_on_goal_complete_cases
          [of "\<lparr>total_points = Some 60, ai_points = Some 45, day_end_time = None,
                current_streak = Some 2147483647, longest_streak = Some 2147483647,
                last_goal_date = Some 99\<rparr>" 100]
  by (simp add: COALESCE0_def int4_def)

text \<open>
  The claim as stated fails: on 15 January 2024, with the last completion on 14 January and
  a current streak of 2147483647, the current streak is not incremented; the addition is
  out of the range of the column and the statement fails.
\<close>

theorem update_streak_overflow_counterexample:
  "update_streak_on_goal_complete 19737 True False
       (Some \<lparr>total_points = Some 60, ai_points = Some 45, day_end_time = None,
              current_streak = Some 2147483647, longest_streak = Some 2147483647,
              last_goal_date = Some 19736\<rparr>)
     = Inl integer_out_of_range"
  by (simp add: update_streak_on_goal_complete_def streak_logic_def int4_add_def int4_def
      COALESCE0_def Let_def)

section \<open>Properties of the intensity\<close>

text \<open>
  Claim C5. For every time to the boundary (in milliseconds) and all integer scores,
  \<open>calculateIntensity\<close> equals the reference definition: step function of the hours
  remaining, step function of the margin, combined value \<open>min 1 (0.6 * time + 0.4 * score)\<close>,
  and the tier with inclusive lower bounds. Ten minutes with equal scores give the value
  0.64 and the tier high.
\<close>

theorem calculateIntensity_reference:
  "calculateIntensity (Fin ms) userPoints aiPoints = computeIntensity_spec ms userPoints aiPoints \<and>
   calculateIntensity (Fin (10 * 60 * 1000)) 30 30 = (High, 64/100)"
  by (simp add: calculateIntensity_def timeIntensity_def scoreIntensity_def
      computeIntensity_spec_def timeSubScore_def scoreSubScore_def tier_def js_div_def
      js_lt_def Let_def)

section \<open>Properties of the countdown\<close>

lemma day_bounds:
  "(t div msPerDay) * msPerDay \<le> t \<and> t < (t div msPerDay) * msPerDay + msPerDay"
proof -
  have "0 \<le> t mod msPerDay" "t mod msPerDay < msPerDay"
    by (simp_all add: msPerDay_def)
  moreover have "t = (t div msPerDay) * msPerDay + t mod msPerDay"
    by simp
  ultimately show ?thesis by linarith
qed

lemma split_2300: "split_map_Number ''23:00'' = Some (Fin 23, Fin 0)"
  by (simp add: split_map_Number_def js_Number_def is_digit_def digits_val_def)

lemma split_2359: "split_map_Number ''23:59'' = Some (Fin 23, Fin 59)"
  by (simp add: split_map_Number_def js_Number_def is_digit_def digits_val_def)

lemma split_hhmm: "split_map_Number ''hh:mm'' = Some (NaN, NaN)"
  by (simp add: split_map_Number_def js_Number_def is_digit_def digits_val_def
      non_numeric_letter_def)

text \<open>
  In a zone of fixed offset, \<open>setHours_in\<close> is \<open>setHours\<close>.
\<close>

lemma setHours_in_fixed:
  "setHours_in (fixed_zone tz) d hr mn sc ms = setHours tz d hr mn sc ms"
  by (simp add: setHours_in_def setHours_def fixed_zone_def LocalTime_def UTC_of_def Let_def
      split: jsnum.splits)

lemma calculateTimeToEOD_rolls:
  assumes v: "0 \<le> h" "h < 24" "0 \<le> m" "m < 60"
      and r: "\<bar>now\<bar> \<le> 8640000000000000 - 6 * msPerDay"
      and zb: "zone_bounded z" and rf: "reads_forward z" and ord: "days_in_order z"
  shows "calculateTimeToEOD_fields z now (Fin h) (Fin m)
           = Fin (max 0 (boundaryInstant z now h m - now))
         \<and> 0 < boundaryInstant z now h m - now"
proof -
  have D: "msPerDay = 86400000" by (simp add: msPerDay_def)
  have ob: "\<And>t. \<bar>utc_off z t\<bar> \<le> msPerDay" "\<And>t. \<bar>loc_off z t\<bar> \<le> msPerDay"
    using zb by (simp_all add: zone_bounded_def)
  define l where "l = LocalTime z now"
  define q where "q = l div msPerDay"
  define date where "date = q * msPerDay + h * msPerHour + m * msPerMinute"
  define b where "b = UTC_of z date"
  define x where "x = LocalTime z b + msPerDay"
  define b' where "b' = UTC_of z x"
  have l: "\<bar>l - now\<bar> \<le> msPerDay"
    using ob(1) [of now] by (simp add: l_def LocalTime_def)
  have q: "q * msPerDay \<le> l" "l < q * msPerDay + msPerDay"
    using day_bounds [of l] by (simp_all add: q_def)
  have hm: "0 \<le> h * msPerHour + m * msPerMinute" "h * msPerHour + m * msPerMinute < msPerDay"
    using v by (simp_all add: msPerHour_def msPerMinute_def msPerDay_def)
  have date: "l - msPerDay < date" "date < l + msPerDay" "q * msPerDay \<le> date"
    using q hm by (simp_all add: date_def)
  have b: "\<bar>b - date\<bar> \<le> msPerDay"
    using ob(2) [of date] by (simp add: b_def UTC_of_def)
  have x: "\<bar>x - b\<bar> \<le> 2 * msPerDay"
    using ob(1) [of b] by (simp add: x_def LocalTime_def)
  have b': "\<bar>b' - x\<bar> \<le> msPerDay"
    using ob(2) [of x] by (simp add: b'_def UTC_of_def)
  have clip: "TimeClip b = Fin b" "TimeClip b' = Fin b'"
    using l date b x b' r by (auto simp: TimeClip_def D)
  have "setHours_in z (Fin now) (Fin h) (Fin m) (Fin 0) (Fin 0) = TimeClip b"
    by (simp add: setHours_in_def MakeDate_def MakeTime_def Let_def b_def date_def q_def l_def
        msPerSecond_def add.assoc)
  then have eod: "setHours_in z (Fin now) (Fin h) (Fin m) (Fin 0) (Fin 0) = Fin b"
    by (simp add: clip(1))
  have "setDate_next z (Fin b) = TimeClip b'"
    by (simp add: setDate_next_def b'_def x_def)
  then have roll: "setDate_next z (Fin b) = Fin b'"
    by (simp add: clip(2))
  have bI: "boundaryInstant z now h m = (if b \<le> now then b' else b)"
    by (simp add: boundaryInstant_def wall_instant_def next_calendar_day_def Let_def
        b_def b'_def x_def date_def q_def l_def add.assoc)
  have pos: "b \<le> now \<Longrightarrow> now < b'"
  proof -
    have "date \<le> LocalTime z b"
      using rf by (simp add: reads_forward_def b_def)
    then have "(LocalTime z now div msPerDay + 1) * msPerDay \<le> x"
      using date(3) by (simp add: x_def q_def l_def algebra_simps)
    then show "now < b'"
      using ord by (simp add: days_in_order_def b'_def)
  qed
  show ?thesis
    using pos
    by (auto simp: calculateTimeToEOD_fields_def eod roll bI js_le_def Math_max_def js_sub_def
        Let_def)
qed

text \<open>
  Every zone of fixed offset of at most a day, and the zone of New York around 3 November
  2024, are zones of the kind that the countdown needs.
\<close>

lemma fixed_zone_ok:
  assumes "\<bar>tz\<bar> \<le> msPerDay"
  shows "zone_bounded (fixed_zone tz) \<and> reads_forward (fixed_zone tz) \<and> days_in_order (fixed_zone tz)"
proof -
  have 1: "zone_bounded (fixed_zone tz)"
    using assms by (simp add: zone_bounded_def fixed_zone_def)
  have 2: "reads_forward (fixed_zone tz)"
    by (simp add: reads_forward_def fixed_zone_def LocalTime_def UTC_of_def)
  have 3: "days_in_order (fixed_zone tz)"
  proof -
    have "\<And>t x. ((t + tz) div msPerDay + 1) * msPerDay \<le> x \<Longrightarrow> t < x - tz"
    proof -
      fix t x :: int
      assume a: "((t + tz) div msPerDay + 1) * msPerDay \<le> x"
      have "t + tz < ((t + tz) div msPerDay) * msPerDay + msPerDay"
        using day_bounds [of "t + tz"] by simp
      with a show "t < x - tz" by (simp add: algebra_simps)
    qed
    then show ?thesis
      by (simp add: days_in_order_def fixed_zone_def LocalTime_def UTC_of_def)
  qed
  from 1 2 3 show ?thesis by blast
qed

lemma new_york_2024_ok:
  "zone_bounded new_york_2024 \<and> reads_forward new_york_2024 \<and> days_in_order new_york_2024"
proof -
  have 1: "zone_bounded new_york_2024"
    by (simp add: zone_bounded_def new_york_2024_def msPerDay_def)
  have 2: "reads_forward new_york_2024"
    by (simp add: reads_forward_def new_york_2024_def LocalTime_def UTC_of_def)
  have 3: "days_in_order new_york_2024"
  proof -
    have "\<And>t x. (LocalTime new_york_2024 t div msPerDay + 1) * msPerDay \<le> x
            \<Longrightarrow> t < UTC_of new_york_2024 x"
    proof -
      fix t x :: int
      define l where "l = LocalTime new_york_2024 t"
      assume "(LocalTime new_york_2024 t div msPerDay + 1) * msPerDay \<le> x"
      then have a: "(l div msPerDay + 1) * msPerDay \<le> x" by (simp add: l_def)
      have lx: "l < x"
        using day_bounds [of l] a by (simp add: algebra_simps)
      show "t < UTC_of new_york_2024 x"
      proof (cases "t < 1730613600000")
        case True
        then have "l = t - 14400000"
          by (simp add: l_def LocalTime_def new_york_2024_def)
        with lx show ?thesis
          by (simp add: UTC_of_def new_york_2024_def)
      next
        case False
        then have le: "l = t - 18000000"
          by (simp add: l_def LocalTime_def new_york_2024_def)
        with False have "1730592000000 \<le> l" by simp
        then have "1730592000000 div msPerDay \<le> l div msPerDay"
          by (rule zdiv_mono1) (simp add: msPerDay_def)
        then have "20030 \<le> l div msPerDay" by (simp add: msPerDay_def)
        then have "20031 * msPerDay \<le> (l div msPerDay + 1) * msPerDay"
          by (simp add: msPerDay_def)
        with a have "1730599200000 \<le> x" by (simp add: msPerDay_def)
        with lx le show ?thesis
          by (simp add: UTC_of_def new_york_2024_def)
      qed
    qed
    then show ?thesis by (simp add: days_in_order_def)
  qed
  from 1 2 3 show ?thesis by blast
qed

text \<open>
  Claim C7, as amended. For every instant \<open>now\<close> (six days away from the ends of the range
  of time values), every zone whose offsets are at most a day and whose calendar days are
  in order, and every day boundary \<open>h:m\<close> with \<open>0 \<le> h < 24\<close> and \<open>0 \<le> m < 60\<close>,
  \<open>calculateTimeToEOD\<close> returns \<open>max 0 (boundaryInstant - now)\<close>, where the boundary instant
  is today's boundary if it is after \<open>now\<close>, and otherwise that boundary rolled to the next
  calendar day, at the same reading of the local clock. Because the function itself rolls
  the boundary forward, in the same call, the result is strictly positive: it is never
  negative and never zero. The roll is by a calendar day, not by 24 hours: where the offset
  of the zone changes in between, the result at the boundary differs from 24 hours.
\<close>

theorem calculateTimeToEOD_boundary:
  assumes "0 \<le> h" "h < 24" "0 \<le> m" "m < 60"
      and "\<bar>now\<bar> \<le> 8640000000000000 - 6 * msPerDay"
      and "zone_bounded z" and "reads_forward z" and "days_in_order z"
  shows "calculateTimeToEOD_fields z now (Fin h) (Fin m)
           = Fin (max 0 (boundaryInstant z now h m - now))
         \<and> 0 < boundaryInstant z now h m - now
         \<and> (split_map_Number dayEndTime = Some (Fin h, Fin m) \<longrightarrow>
              calculateTimeToEOD z now dayEndTime
                = Some (Fin (max 0 (boundaryInstant z now h m - now))))"
  using calculateTimeToEOD_rolls [OF assms]
  by (simp add: calculateTimeToEOD_def)

text \<open>
  With the boundary 23:00: in the zone UTC one second before the boundary and at the
  boundary on 15 January 2024, and in New York at 23:00 on 2 November 2024, the evening
  before the clocks go back, where the next boundary is 25 hours away.
\<close>

theorem calculateTimeToEOD_boundary_witness:
  "calculateTimeToEOD (fixed_zone 0) 1705359599000 ''23:00'' = Some (Fin 1000) \<and>
   calculateTimeToEOD (fixed_zone 0) 1705359600000 ''23:00'' = Some (Fin 86400000) \<and>
   calculateTimeToEOD new_york_2024 1730602800000 ''23:00'' = Some (Fin 90000000)"
proof -
  have f: "zone_bounded (fixed_zone 0)" "reads_forward (fixed_zone 0)" "days_in_order (fixed_zone 0)"
    using fixed_zone_ok [of 0] by (simp_all add: msPerDay_def)
  have n: "zone_bounded new_york_2024" "reads_forward new_york_2024" "days_in_order new_york_2024"
    using new_york_2024_ok by simp_all
  have b1: "boundaryInstant (fixed_zone 0) 1705359599000 23 0 = 1705359600000"
    by (simp add: boundaryInstant_def wall_instant_def next_calendar_day_def LocalTime_def
        UTC_of_def fixed_zone_def msPerDay_def msPerHour_def msPerMinute_def)
  have b2: "boundaryInstant (fixed_zone 0) 1705359600000 23 0 = 1705446000000"
    by (simp add: boundaryInstant_def wall_instant_def next_calendar_day_def LocalTime_def
        UTC_of_def fixed_zone_def msPerDay_def msPerHour_def msPerMinute_def)
  have b3: "boundaryInstant new_york_2024 1730602800000 23 0 = 1730692800000"
    by (simp add: boundaryInstant_def wall_instant_def next_calendar_day_def LocalTime_def
        UTC_of_def new_york_2024_def msPerDay_def msPerHour_def msPerMinute_def)
  show ?thesis
    using calculateTimeToEOD_boundary [of 23 0 1705359599000 "fixed_zone 0" "''23:00''", OF _ _ _ _ _ f]
          calculateTimeToEOD_boundary [of 23 0 1705359600000 "fixed_zone 0" "''23:00''", OF _ _ _ _ _ f]
          calculateTimeToEOD_boundary [of 23 0 1730602800000 new_york_2024 "''23:00''", OF _ _ _ _ _ n]
    by (simp add: split_2300 b1 b2 b3 msPerDay_def)
qed

text \<open>
  The claim as stated fails: at 23:00:00 UTC on 15 January 2024, with the boundary 23:00 in
  the zone UTC, today's boundary has been reached, and the result is a full day, not zero;
  one second later it is one second less than a day.
\<close>

theorem calculateTimeToEOD_zero_counterexample:
  "wall_instant (fixed_zone 0) (LocalTime (fixed_zone 0) 1705359600000 div msPerDay) 23 0
     = 1705359600000 \<and>
   calculateTimeToEOD (fixed_zone 0) 1705359600000 ''23:00'' = Some (Fin 86400000) \<and>
   calculateTimeToEOD (fixed_zone 0) 1705359601000 ''23:00'' = Some (Fin 86399000)"
  by (simp add: calculateTimeToEOD_def calculateTimeToEOD_fields_def split_2300 setHours_in_def
      setDate_next_def MakeDate_def MakeTime_def TimeClip_def js_le_def Math_max_def js_sub_def
      Let_def wall_instant_def LocalTime_def UTC_of_def fixed_zone_def msPerDay_def
      msPerHour_def msPerMinute_def msPerSecond_def)

section \<open>Properties of the completion of a goal\<close>

text \<open>
  In the zone UTC the point split of \<open>handleCompleteGoal\<close> is the table of the
  specification, row by row, with the boundary instant on the side that is not early.
\<close>

lemma handleCompleteGoal_table_utc:
  assumes "\<bar>now\<bar> \<le> 8640000000000000 - 2 * msPerDay"
      and "\<And>t. due_time g = Some t \<Longrightarrow> valid_tod t"
      and "\<And>d. due_date g = Some d \<Longrightarrow> \<bar>d * msPerDay\<bar> \<le> 8640000000000000 - 2 * msPerDay"
      and "goal_type g = Daily \<or> due_date g \<noteq> None \<or> due_time g = None"
  shows "completion_result (handleCompleteGoal 0 now g) = resolveCompletion_spec 0 now g"
proof (cases "goal_type g")
  case Daily
  show ?thesis
  proof (cases "due_time g")
    case None
    with Daily show ?thesis
      by (simp add: handleCompleteGoal_def resolveCompletion_spec_def completion_result_def
          outcome_of_def)
  next
    case (Some t)
    have v: "valid_tod t" using assms(2) Some by simp
    then have r: "0 \<le> tod_ms t" "tod_ms t \<le> msPerDay"
      by (auto simp: valid_tod_def tod_ms_def msPerDay_def msPerHour_def msPerMinute_def
          msPerSecond_def)
    have "(now div msPerDay) * msPerDay \<le> now" "now < (now div msPerDay) * msPerDay + msPerDay"
      using day_bounds [of now] by simp_all
    with r assms(1)
    have c: "TimeClip (now div msPerDay * msPerDay + tod_ms t)
               = Fin (now div msPerDay * msPerDay + tod_ms t)"
      by (auto simp: TimeClip_def msPerDay_def)
    show ?thesis using Daily Some v c
      by (simp add: handleCompleteGoal_def resolveCompletion_spec_def completion_result_def
          outcome_of_def new_Date_local_def local_instant_def local_day_def js_lt_def Let_def)
  qed
next
  case LongTerm
  show ?thesis
  proof (cases "due_date g")
    case None
    with LongTerm assms(4) show ?thesis
      by (simp add: handleCompleteGoal_def resolveCompletion_spec_def completion_result_def
          outcome_of_def)
  next
    case (Some d)
    have dr: "\<bar>d * msPerDay\<bar> \<le> 8640000000000000 - 2 * msPerDay"
      using assms(3) Some by simp
    show ?thesis
    proof (cases "due_time g")
      case None
      have c0: "TimeClip (d * msPerDay) = Fin (d * msPerDay)"
        using dr by (auto simp: TimeClip_def msPerDay_def)
      have c1: "TimeClip (d * msPerDay + 86399000) = Fin (d * msPerDay + 86399000)"
        using dr by (auto simp: TimeClip_def msPerDay_def)
      have m: "(d * msPerDay) mod 1000 = 0" by (simp add: msPerDay_def)
      have dv: "(d * msPerDay) div msPerDay = d" by (simp add: msPerDay_def)
      have "setHours3 0 (new_Date_utc d) (Fin 23) (Fin 59) (Fin 59)
              = Fin (d * msPerDay + 86399000)"
        using c1
        by (simp add: setHours3_def setHours_def new_Date_utc_def c0 m dv MakeDate_def
            MakeTime_def Let_def msPerHour_def msPerMinute_def msPerSecond_def)
      with LongTerm Some None show ?thesis
        by (simp add: handleCompleteGoal_def resolveCompletion_spec_def completion_result_def
            outcome_of_def local_instant_def tod_ms_def js_le_def Let_def msPerHour_def
            msPerMinute_def msPerSecond_def)
    next
      case (Some t)
      have v: "valid_tod t" using assms(2) Some by simp
      then have r: "0 \<le> tod_ms t" "tod_ms t \<le> msPerDay"
        by (auto simp: valid_tod_def tod_ms_def msPerDay_def msPerHour_def msPerMinute_def
            msPerSecond_def)
      with dr have c: "TimeClip (d * msPerDay + tod_ms t) = Fin (d * msPerDay + tod_ms t)"
        by (auto simp: TimeClip_def msPerDay_def)
      show ?thesis using LongTerm \<open>due_date g = Some d\<close> Some v c
        by (simp add: handleCompleteGoal_def resolveCompletion_spec_def completion_result_def
            outcome_of_def new_Date_local_def local_instant_def js_lt_def Let_def)
    qed
  qed
qed

text \<open>
  Claim C1 fails on the code away from UTC. In a zone five hours behind UTC, a long-term
  goal due on 15 January 2024 with no due time, completed at 10:00 local time on that day,
  gets the late split 5 and 5, where the table gives 10 and 0 (on time): the due date is
  read as midnight UTC, which is the evening of 14 January on the local clock, and
  \<^verbatim>\<open>setHours(23, 59, 59)\<close> then stays on 14 January. In a zone eight hours ahead of UTC, a
  daily goal due at 18:00, completed at 07:00 local time on 15 January, gets 5 and 5, where
  the table gives 20 and -5 (early): the date of today is taken in UTC, where it is still
  14 January.
\<close>

theorem handleCompleteGoal_zone_divergence:
  "handleCompleteGoal (- 18000000) 1705330800000
      \<lparr>goal_type = LongTerm, due_date = Some 19737, due_time = None, completed = False,
       completed_at = None, points_earned = 0, ai_points_earned = 0,
       created_at = 1704672000000\<rparr>
     = (5, 5, ''Late completion! +5 points (AI gets +5)'') \<and>
   resolveCompletion_spec (- 18000000) 1705330800000
      \<lparr>goal_type = LongTerm, due_date = Some 19737, due_time = None, completed = False,
       completed_at = None, points_earned = 0, ai_points_earned = 0,
       created_at = 1704672000000\<rparr>
     = Some (10, 0, onTime) \<and>
   handleCompleteGoal 28800000 1705273200000
      \<lparr>goal_type = Daily, due_date = None,
       due_time = Some \<lparr>hour = 18, minute = 0, second = 0\<rparr>, completed = False,
       completed_at = None, points_earned = 0, ai_points_earned = 0,
       created_at = 1705269600000\<rparr>
     = (5, 5, ''Task completed! +5 points (AI also gets +5)'') \<and>
   resolveCompletion_spec 28800000 1705273200000
      \<lparr>goal_type = Daily, due_date = None,
       due_time = Some \<lparr>hour = 18, minute = 0, second = 0\<rparr>, completed = False,
       completed_at = None, points_earned = 0, ai_points_earned = 0,
       created_at = 1705269600000\<rparr>
     = Some (20, -5, early)"
  by (simp add: handleCompleteGoal_def resolveCompletion_spec_def local_instant_def local_day_def
      new_Date_local_def new_Date_utc_def setHours3_def setHours_def MakeDate_def MakeTime_def
      TimeClip_def valid_tod_def tod_ms_def js_lt_def js_le_def Let_def
      msPerDay_def msPerHour_def msPerMinute_def msPerSecond_def)

section \<open>Properties of the missed-goal resolver\<close>

lemma setHours_utc:
  assumes "\<bar>t0\<bar> \<le> 8640000000000000 - 2 * msPerDay"
      and "0 \<le> h" "h \<le> 24" "0 \<le> m" "m < 60"
  shows "setHours 0 (Fin t0) (Fin h) (Fin m) (Fin 0) (Fin 0)
           = Fin ((t0 div msPerDay) * msPerDay + h * msPerHour + m * msPerMinute)"
proof -
  have q: "(t0 div msPerDay) * msPerDay \<le> t0" "t0 < (t0 div msPerDay) * msPerDay + msPerDay"
    using day_bounds [of t0] by simp_all
  have hm: "0 \<le> h * msPerHour + m * msPerMinute"
           "h * msPerHour + m * msPerMinute < 2 * msPerDay"
    using assms(2-5) by (simp_all add: msPerHour_def msPerMinute_def msPerDay_def)
  have "\<bar>(t0 div msPerDay) * msPerDay + h * msPerHour + m * msPerMinute\<bar> \<le> 8640000000000000"
    using q hm assms(1) by (simp add: msPerDay_def)
  then have "TimeClip ((t0 div msPerDay) * msPerDay + h * msPerHour + m * msPerMinute)
          = Fin ((t0 div msPerDay) * msPerDay + h * msPerHour + m * msPerMinute)"
    by (simp add: TimeClip_def)
  then show ?thesis
    by (simp add: setHours_def MakeDate_def MakeTime_def Let_def msPerSecond_def add.assoc)
qed

text \<open>
  When the browser of the user is in the zone UTC and the times of day have no seconds,
  the filter of the dashboard sweep selects exactly the goals that are missed in the sense
  of the specification.
\<close>

lemma missed_filter_utc:
  assumes "\<bar>created_at g\<bar> \<le> 8640000000000000 - 2 * msPerDay"
      and "\<And>d. due_date g = Some d \<Longrightarrow> \<bar>d * msPerDay\<bar> \<le> 8640000000000000 - 2 * msPerDay"
      and "\<And>t. due_time g = Some t \<Longrightarrow>
             0 \<le> hour t \<and> hour t \<le> 24 \<and> 0 \<le> minute t \<and> minute t < 60 \<and> second t = 0"
      and "0 \<le> h" "h \<le> 24" "0 \<le> m" "m < 60"
  shows "missed_filter 0 now (Fin h) (Fin m) g
           = is_missed 0 now \<lparr>hour = h, minute = m, second = 0\<rparr> g"
proof (cases "completed g")
  case True
  then show ?thesis by (simp add: missed_filter_def is_missed_def)
next
  case nc: False
  show ?thesis
  proof (cases "goal_type g")
    case Daily
    have c: "TimeClip (created_at g) = Fin (created_at g)"
      using assms(1) by (auto simp: TimeClip_def msPerDay_def)
    show ?thesis
      using nc Daily setHours_utc [OF assms(1) assms(4-7)]
      by (simp add: missed_filter_def is_missed_def missed_deadline_def c Let_def
          js_gt_def js_lt_def local_instant_def local_day_def tod_ms_def add.assoc)
  next
    case LongTerm
    show ?thesis
    proof (cases "due_date g")
      case None
      with nc LongTerm show ?thesis
        by (simp add: missed_filter_def is_missed_def missed_deadline_def Let_def)
    next
      case (Some d)
      have dr: "\<bar>d * msPerDay\<bar> \<le> 8640000000000000 - 2 * msPerDay"
        using assms(2) Some by simp
      then have c: "new_Date_utc d = Fin (d * msPerDay)"
        by (auto simp: new_Date_utc_def TimeClip_def msPerDay_def)
      have dv: "(d * msPerDay) div msPerDay = d" by (simp add: msPerDay_def)
      show ?thesis
      proof (cases "due_time g")
        case None
        show ?thesis
          using nc LongTerm Some None setHours_utc [OF dr assms(4-7)]
          by (simp add: missed_filter_def is_missed_def missed_deadline_def c dv Let_def
              js_gt_def js_lt_def local_instant_def local_day_def tod_ms_def add.assoc)
      next
        case (Some t)
        have v: "0 \<le> hour t" "hour t \<le> 24" "0 \<le> minute t" "minute t < 60" "second t = 0"
          using assms(3) Some by simp_all
        show ?thesis
          using nc LongTerm \<open>due_date g = Some d\<close> Some setHours_utc [OF dr v(1-4)] v(5)
          by (simp add: missed_filter_def is_missed_def missed_deadline_def c dv Let_def
              js_gt_def js_lt_def local_instant_def local_day_def tod_ms_def add.assoc)
      qed
    qed
  qed
qed

text \<open>
  In a database session in the zone UTC, for a user in the zone UTC with a profile row, the
  trigger \<open>process_missed_goal\<close> marks exactly the goals that are missed in the sense of the
  specification, with 0 points earned and 15 AI points earned, and adds 15 to the AI total
  of the profile; any other goal and its profile are left as they are.
\<close>

lemma process_missed_goal_utc:
  "process_missed_goal 0 now (Some p) g =
     (if is_missed 0 now (configured_day_end p) g
      then (g\<lparr>completed := True, completed_at := Some now, ai_points_earned := 15,
              points_earned := 0\<rparr>,
            Some (p\<lparr>ai_points := Some (COALESCE0 (ai_points p) + 15)\<rparr>))
      else (g, Some p))"
  by (cases "goal_type g")
     (auto simp: process_missed_goal_def is_missed_def missed_deadline_def
        configured_day_end_def sql_timestamptz_def local_instant_def local_day_def Let_def
        split: option.splits)

text \<open>
  For a user without a profile row the trigger has no end of the day: it marks no daily
  goal and no goal without a due time.
\<close>

lemma process_missed_goal_no_profile:
  assumes "goal_type g = Daily \<or> due_time g = None"
  shows "process_missed_goal stz now None g = (g, None)"
  using assms
  by (cases "goal_type g")
     (auto simp: process_missed_goal_def Let_def split: option.splits)

text \<open>
  Claim C2 fails on the code away from UTC. In a zone five hours behind UTC, a long-term
  goal due on 15 January 2024 at 10:00, swept at 09:00 local time on that day, is not
  missed: its deadline is an hour away. The sweep of the dashboard selects it: the due date
  is read as midnight UTC, which is the evening of 14 January on the local clock, and
  \<^verbatim>\<open>setHours(10, 0, 0, 0)\<close> then stays on 14 January. The update that the sweep sends runs the
  trigger, which reads the due date and time in the zone of the session, here UTC, where
  10:00 has passed: the goal becomes completed with 0 points earned and 15 AI points
  earned, and the AI total grows from 45 to 60. In a zone eight hours ahead of UTC, a daily
  goal created at 07:00 local time on 15 January is not missed at 08:00, with the end of
  the day at 23:59, and the sweep of the dashboard does not select it; the trigger, run by
  any update of the goal, takes the date of creation in UTC, 14 January, whose 23:59 UTC
  has passed, and marks the goal missed.
\<close>

theorem missed_sweep_zone_divergence:
  "missed_deadline (- 18000000) \<lparr>hour = 23, minute = 59, second = 0\<rparr>
      \<lparr>goal_type = LongTerm, due_date = Some 19737,
       due_time = Some \<lparr>hour = 10, minute = 0, second = 0\<rparr>, completed = False,
       completed_at = None, points_earned = 0, ai_points_earned = 0,
       created_at = 1704672000000\<rparr>
     = Some 1705330800000 \<and>
   is_missed (- 18000000) 1705327200000 \<lparr>hour = 23, minute = 59, second = 0\<rparr>
      \<lparr>goal_type = LongTerm, due_date = Some 19737,
       due_time = Some \<lparr>hour = 10, minute = 0, second = 0\<rparr>, completed = False,
       completed_at = None, points_earned = 0, ai_points_earned = 0,
       created_at = 1704672000000\<rparr>
     = False \<and>
   handleMissedGoals (- 18000000) 1705327200000 None
      [\<lparr>goal_type = LongTerm, due_date = Some 19737,
        due_time = Some \<lparr>hour = 10, minute = 0, second = 0\<rparr>, completed = False,
        completed_at = None, points_earned = 0, ai_points_earned = 0,
        created_at = 1704672000000\<rparr>]
     = Some [\<lparr>goal_type = LongTerm, due_date = Some 19737,
        due_time = Some \<lparr>hour = 10, minute = 0, second = 0\<rparr>, completed = False,
        completed_at = None, points_earned = 0, ai_points_earned = 0,
        created_at = 1704672000000\<rparr>] \<and>
   process_missed_goal 0 1705327200000
      (Some \<lparr>total_points = Some 60, ai_points = Some 45, day_end_time = None,
             current_streak = Some 4, longest_streak = Some 4, last_goal_date = Some 19736\<rparr>)
      \<lparr>goal_type = LongTerm, due_date = Some 19737,
       due_time = Some \<lparr>hour = 10, minute = 0, second = 0\<rparr>, completed = False,
       completed_at = None, points_earned = 0, ai_points_earned = 0,
       created_at = 1704672000000\<rparr>
     = (\<lparr>goal_type = LongTerm, due_date = Some 19737,
        due_time = Some \<lparr>hour = 10, minute = 0, second = 0\<rparr>, completed = True,
        completed_at = Some 1705327200000, points_earned = 0, ai_points_earned = 15,
        created_at = 1704672000000\<rparr>,
       Some \<lparr>total_points = Some 60, ai_points = Some 60, day_end_time = None,
             current_streak = Some 4, longest_streak = Some 4, last_goal_date = Some 19736\<rparr>) \<and>
   missed_deadline 28800000 \<lparr>hour = 23, minute = 59, second = 0\<rparr>
      \<lparr>goal_type = Daily, due_date = None, due_time = None, completed = False,
       completed_at = None, points_earned = 0, ai_points_earned = 0,
       created_at = 1705273200000\<rparr>
     = Some 1705334340000 \<and>
   is_missed 28800000 1705276800000 \<lparr>hour = 23, minute = 59, second = 0\<rparr>
      \<lparr>goal_type = Daily, due_date = None, due_time = None, completed = False,
       completed_at = None, points_earned = 0, ai_points_earned = 0,
       created_at = 1705273200000\<rparr>
     = False \<and>
   handleMissedGoals 28800000 1705276800000 None
      [\<lparr>goal_type = Daily, due_date = None, due_time = None, completed = False,
        completed_at = None, points_earned = 0, ai_points_earned = 0,
        created_at = 1705273200000\<rparr>]
     = Some [] \<and>
   process_missed_goal 0 1705276800000
      (Some \<lparr>total_points = Some 60, ai_points = Some 45, day_end_time = None,
             current_streak = Some 4, longest_streak = Some 4, last_goal_date = Some 19736\<rparr>)
      \<lparr>goal_type = Daily, due_date = None, due_time = None, completed = False,
       completed_at = None, points_earned = 0, ai_points_earned = 0,
       created_at = 1705273200000\<rparr>
     = (\<lparr>goal_type = Daily, due_date = None, due_time = None, completed = True,
        completed_at = Some 1705276800000, points_earned = 0, ai_points_earned = 15,
        created_at = 1705273200000\<rparr>,
       Some \<lparr>total_points = Some 60, ai_points = Some 60, day_end_time = None,
             current_streak = Some 4, longest_streak = Some 4, last_goal_date = Some 19736\<rparr>)"
  by (simp add: missed_deadline_def is_missed_def local_instant_def local_day_def
      handleMissedGoals_def split_2359 missed_filter_def process_missed_goal_def
      sql_timestamptz_def COALESCE0_def new_Date_utc_def setHours_def MakeDate_def
      MakeTime_def TimeClip_def tod_ms_def js_gt_def js_lt_def Let_def
      msPerDay_def msPerHour_def msPerMinute_def msPerSecond_def)

text \<open>
  Claim C3, as amended. A goal whose \<open>completed\<close> flag is already true is passed over in
  silence, with no error: the trigger returns the row and the profile as they are, so that
  no second award of 15 points and no change of any score happens, and the sweep of the
  dashboard does not select the goal.
\<close>

theorem completed_goal_skipped:
  assumes "completed g"
  shows "process_missed_goal stz NOW profile g = (g, profile) \<and>
         \<not> missed_filter tz now eodHours eodMinutes g \<and>
         (\<forall>missedGoals. handleMissedGoals tz now profile_day_end_time goals = Some missedGoals
            \<longrightarrow> g \<notin> set missedGoals)"
proof -
  have 1: "process_missed_goal stz NOW profile g = (g, profile)"
    using assms by (simp add: process_missed_goal_def)
  have 2: "\<And>h m. \<not> missed_filter tz now h m g"
    using assms by (simp add: missed_filter_def)
  have 3: "\<forall>missedGoals. handleMissedGoals tz now profile_day_end_time goals = Some missedGoals
            \<longrightarrow> g \<notin> set missedGoals"
    using 2 by (auto simp: handleMissedGoals_def Let_def split: option.splits prod.splits)
  from 1 2 3 show ?thesis by blast
qed

theorem completed_goal_skipped_witness:
  "process_missed_goal 0 1705449600000
      (Some \<lparr>total_points = Some 60, ai_points = Some 60, day_end_time = None,
             current_streak = Some 4, longest_streak = Some 4, last_goal_date = Some 19735\<rparr>)
      \<lparr>goal_type = LongTerm, due_date = Some 19736, due_time = None, completed = True,
        completed_at = Some 1705312800000, points_earned = 0, ai_points_earned = 15,
        created_at = 1704672000000\<rparr>
    = (\<lparr>goal_type = LongTerm, due_date = Some 19736, due_time = None, completed = True,
        completed_at = Some 1705312800000, points_earned = 0, ai_points_earned = 15,
        created_at = 1704672000000\<rparr>,
       Some \<lparr>total_points = Some 60, ai_points = Some 60, day_end_time = None,
             current_streak = Some 4, longest_streak = Some 4, last_goal_date = Some 19735\<rparr>)"
  using completed_goal_skipped [of
      "\<lparr>goal_type = LongTerm, due_date = Some 19736, due_time = None, completed = True,
        completed_at = Some 1705312800000, points_earned = 0, ai_points_earned = 15,
        created_at = 1704672000000\<rparr>" 0 1705449600000
      "Some \<lparr>total_points = Some 60, ai_points = Some 60, day_end_time = None,
             current_streak = Some 4, longest_streak = Some 4, last_goal_date = Some 19735\<rparr>"]
  by simp

text \<open>
  The claim as stated fails: the goal missed on 15 January 2024 and swept again a day
  later is returned unchanged together with its profile, and the sweep of the dashboard
  returns the empty list; neither raises an error.
\<close>

theorem completed_goal_no_error_counterexample:
  "process_missed_goal 0 1705449600000
      (Some \<lparr>total_points = Some 60, ai_points = Some 60, day_end_time = None,
             current_streak = Some 4, longest_streak = Some 4, last_goal_date = Some 19735\<rparr>)
      \<lparr>goal_type = LongTerm, due_date = Some 19736, due_time = None, completed = True,
        completed_at = Some 1705312800000, points_earned = 0, ai_points_earned = 15,
        created_at = 1704672000000\<rparr>
    = (\<lparr>goal_type = LongTerm, due_date = Some 19736, due_time = None, completed = True,
        completed_at = Some 1705312800000, points_earned = 0, ai_points_earned = 15,
        created_at = 1704672000000\<rparr>,
       Some \<lparr>total_points = Some 60, ai_points = Some 60, day_end_time = None,
             current_streak = Some 4, longest_streak = Some 4, last_goal_date = Some 19735\<rparr>) \<and>
   handleMissedGoals 0 1705449600000 None
      [\<lparr>goal_type = LongTerm, due_date = Some 19736, due_time = None, completed = True,
        completed_at = Some 1705312800000, points_earned = 0, ai_points_earned = 15,
        created_at = 1704672000000\<rparr>] = Some []"
  by (simp add: process_missed_goal_def handleMissedGoals_def missed_filter_def
      split_map_Number_def js_Number_def is_digit_def digits_val_def)

section \<open>Properties of a malformed day-boundary setting\<close>

lemma js_Number_non_numeric:
  assumes "list_ex non_numeric_letter s"
  shows "js_Number s = Some NaN"
proof -
  from assms have "s \<noteq> []" by auto
  moreover have "\<not> list_all is_digit s"
  proof
    assume d: "list_all is_digit s"
    from assms obtain c where c: "c \<in> set s" "non_numeric_letter c"
      by (auto simp: list_ex_iff)
    with d have "is_digit c" by (auto simp: list_all_iff)
    with c(2) show False
      by (auto simp: is_digit_def non_numeric_letter_def)
  qed
  ultimately show ?thesis using assms by (simp add: js_Number_def)
qed

lemma setHours_NaN:
  "hours = NaN \<or> minutes = NaN \<Longrightarrow> setHours tz d hours minutes s ms = NaN"
  by (auto simp: setHours_def MakeTime_def MakeDate_def Let_def split: jsnum.splits)

lemma setHours_in_NaN:
  "hours = NaN \<or> minutes = NaN \<Longrightarrow> setHours_in z d hours minutes s ms = NaN"
  by (auto simp: setHours_in_def MakeTime_def MakeDate_def Let_def split: jsnum.splits)

lemma missed_filter_NaN:
  assumes "eodHours = NaN \<or> eodMinutes = NaN"
      and "missed_filter tz now eodHours eodMinutes g"
  shows "goal_type g = LongTerm \<and> due_date g \<noteq> None \<and> due_time g \<noteq> None"
proof -
  have n: "\<And>d. setHours tz d eodHours eodMinutes (Fin 0) (Fin 0) = NaN"
    using assms(1) by (rule setHours_NaN)
  show ?thesis
    using assms(2)
    by (cases "goal_type g")
       (auto simp: missed_filter_def n js_gt_def js_lt_def Let_def
          split: if_splits option.splits)
qed

text \<open>
  Claim C8, as amended. A day-boundary setting whose hour or minute is not a number raises
  no error, whatever the string it was read from: \<open>hours\<close> and \<open>minutes\<close> are the two numbers
  that \<^verbatim>\<open>split(":").map(Number)\<close> gives, one of them \<open>NaN\<close>. The countdown returns \<open>NaN\<close>; the
  sweep of the dashboard builds an invalid date, every comparison with which is false, so
  that it selects no daily goal and no long-term goal without a due time. When the setting
  is absent (\<^verbatim>\<open>null\<close> or the empty string), the sweep uses \<^verbatim>\<open>23:59\<close>.
\<close>

theorem malformed_day_end_time:
  assumes "hours = NaN \<or> minutes = NaN"
  shows "calculateTimeToEOD_fields z now hours minutes = NaN \<and>
         (\<forall>g \<in> set (filter (missed_filter tz now' hours minutes) goals).
            goal_type g = LongTerm \<and> due_date g \<noteq> None \<and> due_time g \<noteq> None) \<and>
         (split_map_Number dayEndTime = Some (hours, minutes) \<longrightarrow>
            calculateTimeToEOD z now dayEndTime = Some NaN \<and>
            (dayEndTime \<noteq> [] \<longrightarrow>
               handleMissedGoals tz now' (Some dayEndTime) goals
                 = Some (filter (missed_filter tz now' hours minutes) goals))) \<and>
         handleMissedGoals tz now' None goals
           = handleMissedGoals tz now' (Some ''23:59'') goals \<and>
         handleMissedGoals tz now' (Some '''') goals
           = handleMissedGoals tz now' (Some ''23:59'') goals"
proof -
  have "setHours_in z (Fin now) hours minutes (Fin 0) (Fin 0) = NaN"
    using assms by (rule setHours_in_NaN)
  then have 1: "calculateTimeToEOD_fields z now hours minutes = NaN"
    by (simp add: calculateTimeToEOD_fields_def Let_def js_le_def js_sub_def Math_max_def)
  have 2: "\<forall>g \<in> set (filter (missed_filter tz now' hours minutes) goals).
            goal_type g = LongTerm \<and> due_date g \<noteq> None \<and> due_time g \<noteq> None"
    using missed_filter_NaN [OF assms] by auto
  have 3: "split_map_Number dayEndTime = Some (hours, minutes) \<longrightarrow>
            calculateTimeToEOD z now dayEndTime = Some NaN \<and>
            (dayEndTime \<noteq> [] \<longrightarrow>
               handleMissedGoals tz now' (Some dayEndTime) goals
                 = Some (filter (missed_filter tz now' hours minutes) goals))"
    using 1 by (simp add: calculateTimeToEOD_def handleMissedGoals_def)
  have 4: "handleMissedGoals tz now' None goals
             = handleMissedGoals tz now' (Some ''23:59'') goals"
          "handleMissedGoals tz now' (Some '''') goals
             = handleMissedGoals tz now' (Some ''23:59'') goals"
    by (simp_all add: handleMissedGoals_def)
  from 1 2 3 4 show ?thesis by blast
qed

text \<open>
  An hour that is not a number with the minute 30; and the setting \<^verbatim>\<open>hh:mm\<close>, at 23:00 UTC
  on 15 January 2024, with a daily goal created on 8 January.
\<close>

theorem malformed_day_end_time_witness:
  "calculateTimeToEOD_fields (fixed_zone 0) 1705359600000 NaN (Fin 30) = NaN \<and>
   calculateTimeToEOD (fixed_zone 0) 1705359600000 ''hh:mm'' = Some NaN \<and>
   handleMissedGoals 0 1705359600000 (Some ''hh:mm'')
     [\<lparr>goal_type = Daily, due_date = None, due_time = None, completed = False,
       completed_at = None, points_earned = 0, ai_points_earned = 0,
       created_at = 1704672000000\<rparr>] = Some []"
proof -
  let ?g = "\<lparr>goal_type = Daily, due_date = None, due_time = None, completed = False,
       completed_at = None, points_earned = 0, ai_points_earned = 0,
       created_at = 1704672000000\<rparr>"
  have h1: "NaN = (NaN :: int jsnum) \<or> Fin 30 = (NaN :: int jsnum)" by simp
  have h2: "NaN = (NaN :: int jsnum) \<or> NaN = (NaN :: int jsnum)" by simp
  have a: "calculateTimeToEOD_fields (fixed_zone 0) 1705359600000 NaN (Fin 30) = NaN"
    using malformed_day_end_time
      [where hours = NaN and minutes = "Fin 30" and z = "fixed_zone 0"
         and now = 1705359600000 and tz = 0 and now' = 0 and goals = "[]"
         and dayEndTime = "[]", OF h1]
    by (rule conjunct1)
  note t = malformed_day_end_time
      [where hours = NaN and minutes = NaN and z = "fixed_zone 0"
         and now = 1705359600000 and tz = 0 and now' = 1705359600000 and goals = "[?g]"
         and dayEndTime = "''hh:mm''", OF h2]
  from t have b: "\<forall>g \<in> set (filter (missed_filter 0 1705359600000 NaN NaN) [?g]).
            goal_type g = LongTerm \<and> due_date g \<noteq> None \<and> due_time g \<noteq> None"
    by (rule conjunct2 [THEN conjunct1])
  have f: "filter (missed_filter 0 1705359600000 NaN NaN) [?g] = []"
    using b by (cases "missed_filter 0 1705359600000 NaN NaN ?g") simp_all
  from t have c: "split_map_Number ''hh:mm'' = Some (NaN, NaN) \<longrightarrow>
            calculateTimeToEOD (fixed_zone 0) 1705359600000 ''hh:mm'' = Some NaN \<and>
            (''hh:mm'' \<noteq> [] \<longrightarrow>
               handleMissedGoals 0 1705359600000 (Some ''hh:mm'') [?g]
                 = Some (filter (missed_filter 0 1705359600000 NaN NaN) [?g]))"
    by (rule conjunct2 [THEN conjunct2, THEN conjunct1])
  from c split_hhmm have d:
    "calculateTimeToEOD (fixed_zone 0) 1705359600000 ''hh:mm'' = Some NaN"
    "handleMissedGoals 0 1705359600000 (Some ''hh:mm'') [?g]
                 = Some (filter (missed_filter 0 1705359600000 NaN NaN) [?g])"
    by simp_all
  from a d f show ?thesis by simp
qed

text \<open>
  The claim as stated fails: with the setting \<^verbatim>\<open>hh:mm\<close> no error is raised. The countdown
  is \<open>NaN\<close>, and the sweep run at 23:00 UTC on 15 January 2024 does not select an
  uncompleted daily goal created on 8 January, although it is selected under the setting
  \<^verbatim>\<open>23:59\<close>.
\<close>

theorem malformed_day_end_time_counterexample:
  "calculateTimeToEOD (fixed_zone 0) 1705359600000 ''hh:mm'' = Some NaN \<and>
   handleMissedGoals 0 1705359600000 (Some ''hh:mm'')
     [\<lparr>goal_type = Daily, due_date = None, due_time = None, completed = False,
       completed_at = None, points_earned = 0, ai_points_earned = 0,
       created_at = 1704672000000\<rparr>] = Some [] \<and>
   handleMissedGoals 0 1705359600000 (Some ''23:59'')
     [\<lparr>goal_type = Daily, due_date = None, due_time = None, completed = False,
       completed_at = None, points_earned = 0, ai_points_earned = 0,
       created_at = 1704672000000\<rparr>] =
     Some [\<lparr>goal_type = Daily, due_date = None, due_time = None, completed = False,
       completed_at = None, points_earned = 0, ai_points_earned = 0,
       created_at = 1704672000000\<rparr>]"
  by (simp add: calculateTimeToEOD_def calculateTimeToEOD_fields_def handleMissedGoals_def
      split_hhmm split_2359 missed_filter_def setHours_def setHours_in_NaN MakeDate_def
      MakeTime_def TimeClip_def js_le_def js_gt_def js_lt_def js_sub_def Math_max_def Let_def
      msPerDay_def msPerHour_def msPerMinute_def msPerSecond_def)

section \<open>Properties of the intensity value\<close>

lemma timeIntensity_cases:
  "timeIntensity t = 1 \<or> timeIntensity t = 8/10 \<or> timeIntensity t = 6/10 \<or>
   timeIntensity t = 4/10 \<or> timeIntensity t = 2/10"
  by (simp add: timeIntensity_def Let_def)

lemma scoreIntensity_cases:
  "scoreIntensity d = 8/10 \<or> scoreIntensity d = 5/10 \<or> scoreIntensity d = 3/10 \<or>
   scoreIntensity d = 1/10"
  by (simp add: scoreIntensity_def)

lemma combined_bounds:
  "16/100 \<le> timeIntensity t * 0.6 + scoreIntensity d * 0.4 \<and>
   timeIntensity t * 0.6 + scoreIntensity d * 0.4 \<le> 92/100"
  using timeIntensity_cases [of t] scoreIntensity_cases [of d]
  by (elim disjE) simp_all

lemma calculateIntensity_unclamped:
  "snd (calculateIntensity t u a) = timeIntensity t * 0.6 + scoreIntensity (u - a) * 0.4"
  using timeIntensity_cases [of t] scoreIntensity_cases [of "u - a"]
  by (elim disjE) (simp_all add: calculateIntensity_def Let_def)

text \<open>
  Claim C10. For every time to the boundary and all integer scores, the intensity value
  lies between 0.16 and 0.92, so that \<^verbatim>\<open>Math.min(1, ...)\<close> never changes it: the value is the
  weighted sum of the two sub-scores itself. The largest value, 0.92, is reached and has
  the tier critical, and the smallest, 0.16, is reached and has the tier low.
\<close>

theorem calculateIntensity_range:
  "16/100 \<le> snd (calculateIntensity t u a) \<and> snd (calculateIntensity t u a) \<le> 92/100 \<and>
   snd (calculateIntensity t u a) = timeIntensity t * 0.6 + scoreIntensity (u - a) * 0.4 \<and>
   calculateIntensity (Fin 0) 0 21 = (Critical, 92/100) \<and>
   calculateIntensity (Fin (2 * 60 * 60 * 1000)) 30 30 = (Low, 16/100)"
proof -
  have u: "snd (calculateIntensity t u a) = timeIntensity t * 0.6 + scoreIntensity (u - a) * 0.4"
    by (rule calculateIntensity_unclamped)
  have b: "16/100 \<le> snd (calculateIntensity t u a)" "snd (calculateIntensity t u a) \<le> 92/100"
    unfolding u using combined_bounds [of t "u - a"] by simp_all
  have x: "calculateIntensity (Fin 0) 0 21 = (Critical, 92/100)"
          "calculateIntensity (Fin (2 * 60 * 60 * 1000)) 30 30 = (Low, 16/100)"
    by (simp_all add: calculateIntensity_def timeIntensity_def scoreIntensity_def js_div_def
        js_lt_def Let_def)
  show ?thesis
    using b u x by blast
qed

section \<open>Properties of the threat level\<close>

lemma scoreTheat_mono: "d' \<le> d \<Longrightarrow> scoreTheat d \<le> scoreTheat d'"
  by (auto simp: scoreTheat_def min_def divide_simps)

lemma threatLevel_Fin:
  "threatLevel (Fin t) u a
     = Fin (min 1 ((1 - of_int t / 86400000) * 0.5 + scoreTheat (u - a) * 0.5))"
  by (simp add: threatLevel_def js_div_def Math_min_def Let_def)

text \<open>
  Claim C6, as amended. For every time to the boundary and all integer scores, the threat
  level is \<open>min 1 (0.5 * (1 - time / 24h) + 0.5 * scoreComponent)\<close>, where the score
  component is \<open>min 1 (\<bar>margin\<bar> / 50)\<close> for a negative margin and 0 otherwise. It does not
  decrease as the time to the boundary shrinks, nor as the margin shrinks. When the user is
  ahead or tied it is the score component that is zero: the threat level is then
  \<open>min 1 (0.5 * (1 - time / 24h))\<close>.
\<close>

theorem threatLevel_formula:
  "threatLevel (Fin t) u a
     = Fin (min 1 (1/2 * (1 - of_int t / 86400000)
                   + 1/2 * (if u - a < 0 then min 1 (of_int \<bar>u - a\<bar> / 50) else 0))) \<and>
   (t' \<le> t \<longrightarrow> js_le (threatLevel (Fin t) u a) (threatLevel (Fin t') u a)) \<and>
   (u' - a' \<le> u - a \<longrightarrow> js_le (threatLevel (Fin t) u a) (threatLevel (Fin t) u' a')) \<and>
   (a \<le> u \<longrightarrow> threatLevel (Fin t) u a = Fin (min 1 (1/2 * (1 - of_int t / 86400000))))"
proof -
  have 1: "threatLevel (Fin t) u a
     = Fin (min 1 (1/2 * (1 - of_int t / 86400000)
                   + 1/2 * (if u - a < 0 then min 1 (of_int \<bar>u - a\<bar> / 50) else 0)))"
    by (simp add: threatLevel_Fin scoreTheat_def)
  have 2: "t' \<le> t \<longrightarrow> js_le (threatLevel (Fin t) u a) (threatLevel (Fin t') u a)"
    by (auto simp: threatLevel_Fin js_le_def min_def divide_simps)
  have 3: "u' - a' \<le> u - a \<longrightarrow> js_le (threatLevel (Fin t) u a) (threatLevel (Fin t) u' a')"
    using scoreTheat_mono [of "u' - a'" "u - a"]
    by (auto simp: threatLevel_Fin js_le_def min_def)
  have 4: "a \<le> u \<longrightarrow> threatLevel (Fin t) u a = Fin (min 1 (1/2 * (1 - of_int t / 86400000)))"
    by (simp add: threatLevel_Fin scoreTheat_def)
  from 1 2 3 4 show ?thesis by blast
qed

theorem threatLevel_formula_witness:
  "threatLevel (Fin 43200000) 10 40 = Fin (11/20) \<and>
   js_le (threatLevel (Fin 43200000) 10 40) (threatLevel (Fin 21600000) 10 40) \<and>
   js_le (threatLevel (Fin 43200000) 10 40) (threatLevel (Fin 43200000) 10 50) \<and>
   threatLevel (Fin 43200000) 40 10 = Fin (1/4)"
  using threatLevel_formula [of 43200000 10 40 21600000 10 50]
        threatLevel_formula [of 43200000 40 10 43200000 40 10]
  by (simp add: threatLevel_Fin scoreTheat_def js_le_def)

text \<open>
  The claim as stated fails: with the user ahead by 10 points at the boundary the threat
  level is one half, and with equal points and twelve hours left it is one quarter.
\<close>

theorem threatLevel_ahead_counterexample:
  "threatLevel (Fin 0) 10 0 = Fin (1/2) \<and> threatLevel (Fin 43200000) 30 30 = Fin (1/4)"
  by (simp add: threatLevel_Fin scoreTheat_def)

end

